theory Spec2Isabelle
  imports Main "HOL-Library.Word"
begin

section \<open>The servo sweep routine of \<^verbatim>\<open>src/servo.cpp\<close>\<close>

text \<open>
  The source file holds one global object, one constant and two functions:
  \<^verbatim>\<open>
  Servo myservo;
  const int servoPin = 33;

  void servoInit() {
    myservo.setPeriodHertz(333);
    myservo.attach(servoPin, 900, 2100);
  }

  void servo(int delayTime) {
    for(int pos = 176; pos >= 45; pos--) {
      myservo.write(pos);
      delay(1);
    }
    delay(300);
    for(int pos = 45; pos <= 176; pos++) {
      myservo.write(pos);
      // delay(1);
    }
    delay(delayTime);
  }
  \<close>
  Both functions return nothing: all they do is call the servo driver and the
  platform's \<^verbatim>\<open>delay\<close>. The embedding therefore passes the state of the
  outside world explicitly, and that state records every call made, in order.
\<close>

subsection \<open>The calls that leave the program\<close>

text \<open>
  One constructor per driver or platform function the source calls, with the
  arguments of the call. An \<^verbatim>\<open>int\<close> argument is kept as its mathematical
  value (every value the source passes is a literal or a loop counter between 44
  and 177, far from the limits of a 32-bit \<^verbatim>\<open>int\<close>). The argument of
  \<^verbatim>\<open>delay\<close> is the 32-bit pattern that reaches the platform.
\<close>

datatype call =
    SetPeriodHertz int
  | Attach int int int
  | Write int
  | Delay "32 word"

text \<open>
  The state of the global \<^verbatim>\<open>myservo\<close> object and of the call history.
  A field is \<open>None\<close> until the program has set it.
\<close>

record hw =
  periodHertz :: "int option"
  attachment :: "(int \<times> int \<times> int) option"
  position :: "int option"
  calls :: "call list"

text \<open>The state right after \<^verbatim>\<open>Servo myservo;\<close>: nothing set, nothing called.\<close>

definition unconfigured :: hw where
  "unconfigured =
     \<lparr>periodHertz = None, attachment = None, position = None, calls = []\<rparr>"

subsection \<open>The driver and the platform\<close>

text \<open>
  Modelled from the spec: the \<^verbatim>\<open>Servo\<close> class of the servo library is not
  part of the repository. The spec describes the actuator handle as owning the
  carrier frequency, the pin binding with its minimum and maximum pulse width, and
  an internal position register. \<open>myservo_setPeriodHertz\<close> stores the carrier
  frequency.
\<close>

definition myservo_setPeriodHertz :: "int \<Rightarrow> hw \<Rightarrow> hw" where
  "myservo_setPeriodHertz hertz s =
     s\<lparr>periodHertz := Some hertz, calls := calls s @ [SetPeriodHertz hertz]\<rparr>"

text \<open>
  Modelled from the spec: \<open>myservo_attach\<close> binds the actuator to a pin with
  the pulse-width bounds given (microseconds).
\<close>

definition myservo_attach :: "int \<Rightarrow> int \<Rightarrow> int \<Rightarrow> hw \<Rightarrow> hw" where
  "myservo_attach pin mn mx s =
     s\<lparr>attachment := Some (pin, mn, mx), calls := calls s @ [Attach pin mn mx]\<rparr>"

text \<open>
  Modelled from the spec: \<open>myservo_write\<close> commands the actuator to an angle;
  the driver's position register holds the angle commanded last. The
  configuration is not touched.
\<close>

definition myservo_write :: "int \<Rightarrow> hw \<Rightarrow> hw" where
  "myservo_write v s = s\<lparr>position := Some v, calls := calls s @ [Write v]\<rparr>"

text \<open>
  Modelled from the spec: the platform's \<^verbatim>\<open>delay\<close> blocks for a duration in
  milliseconds that it takes as an unsigned 32-bit number. A signed argument is
  converted at the call: the 32 bits stay, and are read as unsigned from then on
  (\<open>unat\<close>).
\<close>

definition delay :: "32 word \<Rightarrow> hw \<Rightarrow> hw" where
  "delay ms s = s\<lparr>calls := calls s @ [Delay ms]\<rparr>"

subsection \<open>The source\<close>

definition servoPin :: int where
  "servoPin = 33"

definition servoInit :: "hw \<Rightarrow> hw" where
  "servoInit s = myservo_attach servoPin 900 2100 (myservo_setPeriodHertz 333 s)"

text \<open>
  The first loop of \<^verbatim>\<open>servo\<close>, entered with \<open>pos = 176\<close>:
  \<^verbatim>\<open>for(...; pos >= 45; pos--) { myservo.write(pos); delay(1); }\<close>
\<close>

function servo_backward :: "int \<Rightarrow> hw \<Rightarrow> hw" where
  "servo_backward pos s =
     (if pos \<ge> 45 then servo_backward (pos - 1) (delay 1 (myservo_write pos s)) else s)"
  by pat_completeness auto
termination
  by (relation "measure (\<lambda>(pos, s). nat (pos - 44))") auto

text \<open>
  The second loop, entered with \<open>pos = 45\<close>:
  \<^verbatim>\<open>for(...; pos <= 176; pos++) { myservo.write(pos); }\<close>
\<close>

function servo_forward :: "int \<Rightarrow> hw \<Rightarrow> hw" where
  "servo_forward pos s =
     (if pos \<le> 176 then servo_forward (pos + 1) (myservo_write pos s) else s)"
  by pat_completeness auto
termination
  by (relation "measure (\<lambda>(pos, s). nat (177 - pos))") auto

text \<open>
  \<^verbatim>\<open>void servo(int delayTime)\<close>. The parameter is a 32-bit \<^verbatim>\<open>int\<close>: a
  \<open>32 word\<close> whose value the caller reads with \<open>sint\<close>.
\<close>

definition servo :: "32 word \<Rightarrow> hw \<Rightarrow> hw" where
  "servo delayTime s =
     delay delayTime (servo_forward 45 (delay 300 (servo_backward 176 s)))"

subsection \<open>Observations\<close>

text \<open>
  The configuration of the actuator: the carrier frequency, and the pin with its
  pulse-width bounds.
\<close>

definition configuration :: "hw \<Rightarrow> int option \<times> (int \<times> int \<times> int) option" where
  "configuration s = (periodHertz s, attachment s)"

text \<open>The calls made while \<open>f\<close> runs from the state \<open>s\<close>.\<close>

definition emitted :: "(hw \<Rightarrow> hw) \<Rightarrow> hw \<Rightarrow> call list" where
  "emitted f s = drop (length (calls s)) (calls (f s))"

text \<open>The angles commanded to the actuator, in order.\<close>

fun commanded :: "call list \<Rightarrow> int list" where
  "commanded [] = []"
| "commanded (Write v # cs) = v # commanded cs"
| "commanded (c # cs) = commanded cs"

text \<open>The sum of all durations passed to \<^verbatim>\<open>delay\<close>, in milliseconds.\<close>

fun blocking_ms :: "call list \<Rightarrow> nat" where
  "blocking_ms [] = 0"
| "blocking_ms (Delay ms # cs) = unat ms + blocking_ms cs"
| "blocking_ms (c # cs) = blocking_ms cs"

text \<open>The calls that change the configuration of the actuator.\<close>

fun config_calls :: "call list \<Rightarrow> call list" where
  "config_calls [] = []"
| "config_calls (SetPeriodHertz h # cs) = SetPeriodHertz h # config_calls cs"
| "config_calls (Attach p mn mx # cs) = Attach p mn mx # config_calls cs"
| "config_calls (c # cs) = config_calls cs"

text \<open>
  The total blocking time as the specification writes it: 131 ms for the first
  phase, 300 ms to settle, nothing for the third phase, and the cycle delay.
\<close>

definition spec_blocking_ms :: "32 word \<Rightarrow> int" where
  "spec_blocking_ms delayTime = 131 + 300 + 0 + sint delayTime"

declare servo_backward.simps [simp del]
declare servo_forward.simps [simp del]

section \<open>The call sequence of each part\<close>

text \<open>
  The defining equations of the two loops rewrite a loop into itself; they are
  used one step at a time, inside the computation inductions below.
\<close>

lemma commanded_append: "commanded (xs @ ys) = commanded xs @ commanded ys"
  by (induction xs rule: commanded.induct) simp_all

lemma blocking_ms_append: "blocking_ms (xs @ ys) = blocking_ms xs + blocking_ms ys"
  by (induction xs rule: blocking_ms.induct) simp_all

lemma config_calls_append: "config_calls (xs @ ys) = config_calls xs @ config_calls ys"
  by (induction xs rule: config_calls.induct) simp_all

lemma calls_servo_backward:
  "calls (servo_backward pos s) =
     calls s @ concat (map (\<lambda>p. [Write p, Delay 1]) (rev [45..pos]))"
proof (induction pos s rule: servo_backward.induct)
  case (1 pos s)
  show ?case
  proof (cases "45 \<le> pos")
    case True
    then have "[45..pos] = [45..pos - 1] @ [pos]"
      by (rule upto_rec2)
    with True "1.IH" show ?thesis
      by (simp add: servo_backward.simps [of pos s] delay_def myservo_write_def)
  next
    case False
    then show ?thesis by (simp add: servo_backward.simps [of pos s])
  qed
qed

lemma frame_servo_backward:
  "periodHertz (servo_backward pos s) = periodHertz s \<and>
   attachment (servo_backward pos s) = attachment s"
proof (induction pos s rule: servo_backward.induct)
  case (1 pos s)
  then show ?case
    by (cases "45 \<le> pos")
       (simp_all add: servo_backward.simps [of pos s] delay_def myservo_write_def)
qed

lemma position_servo_backward:
  "position (servo_backward pos s) = (if 45 \<le> pos then Some 45 else position s)"
proof (induction pos s rule: servo_backward.induct)
  case (1 pos s)
  then show ?case
    by (cases "45 \<le> pos")
       (simp_all add: servo_backward.simps [of pos s] delay_def myservo_write_def)
qed

lemma calls_servo_forward:
  "calls (servo_forward pos s) = calls s @ map Write [pos..176]"
proof (induction pos s rule: servo_forward.induct)
  case (1 pos s)
  show ?case
  proof (cases "pos \<le> 176")
    case True
    then have "[pos..176] = pos # [pos + 1..176]"
      by (rule upto_rec1)
    with True "1.IH" show ?thesis
      by (simp add: servo_forward.simps [of pos s] myservo_write_def)
  next
    case False
    then show ?thesis by (simp add: servo_forward.simps [of pos s])
  qed
qed

lemma frame_servo_forward:
  "periodHertz (servo_forward pos s) = periodHertz s \<and>
   attachment (servo_forward pos s) = attachment s"
proof (induction pos s rule: servo_forward.induct)
  case (1 pos s)
  then show ?case
    by (cases "pos \<le> 176")
       (simp_all add: servo_forward.simps [of pos s] myservo_write_def)
qed

lemma position_servo_forward:
  "position (servo_forward pos s) = (if pos \<le> 176 then Some 176 else position s)"
proof (induction pos s rule: servo_forward.induct)
  case (1 pos s)
  then show ?case
    by (cases "pos \<le> 176")
       (simp_all add: servo_forward.simps [of pos s] myservo_write_def)
qed

lemma calls_servo:
  "calls (servo delayTime s) =
     calls s @ concat (map (\<lambda>p. [Write p, Delay 1]) (rev [45..176])) @
       [Delay 300] @ map Write [45..176] @ [Delay delayTime]"
  by (simp add: servo_def delay_def calls_servo_forward calls_servo_backward)

lemma emitted_eq: "calls (f s) = calls s @ xs \<Longrightarrow> emitted f s = xs"
  by (simp add: emitted_def)

lemma commanded_steps: "commanded (concat (map (\<lambda>p. [Write p, Delay d]) ps)) = ps"
  by (induction ps) simp_all

lemma commanded_writes: "commanded (map Write ps) = ps"
  by (induction ps) simp_all

lemma blocking_ms_steps:
  "blocking_ms (concat (map (\<lambda>p. [Write p, Delay d]) ps)) = length ps * unat d"
  by (induction ps) simp_all

lemma blocking_ms_writes: "blocking_ms (map Write ps) = 0"
  by (induction ps) simp_all

lemma config_calls_steps: "config_calls (concat (map (\<lambda>p. [Write p, Delay d]) ps)) = []"
  by (induction ps) simp_all

lemma config_calls_writes: "config_calls (map Write ps) = []"
  by (induction ps) simp_all

lemma upto_45_176_length: "length [45..176] = 132"
  by (simp add: length_upto)

lemma unat_delayTime_mod: "unat (d :: 32 word) = nat (sint d mod 2 ^ 32)"
proof -
  have "unat d = nat (uint d)" by simp
  also have "uint d = sint d mod 2 ^ 32" by (simp add: uint_sint take_bit_eq_mod)
  finally show ?thesis .
qed

lemma unat_delayTime:
  "unat (d :: 32 word) = (if 0 \<le> sint d then nat (sint d) else nat (sint d + 2 ^ 32))"
proof -
  have lo: "- (2 ^ 31) \<le> sint d" using sint_ge [of d] by simp
  have hi: "sint d < 2 ^ 31" using sint_lt [of d] by simp
  show ?thesis
  proof (cases "0 \<le> sint d")
    case True
    with hi have "sint d mod 2 ^ 32 = sint d" by simp
    with True show ?thesis by (simp only: unat_delayTime_mod if_True)
  next
    case False
    have "(sint d + 2 ^ 32) mod 2 ^ 32 = sint d mod 2 ^ 32"
      by (rule mod_add_self2)
    moreover from lo False have "(sint d + 2 ^ 32) mod 2 ^ 32 = sint d + 2 ^ 32"
      by (intro mod_pos_pos_trivial) simp_all
    ultimately have "sint d mod 2 ^ 32 = sint d + 2 ^ 32"
      by (rule trans [OF sym])
    with False show ?thesis by (simp only: unat_delayTime_mod if_False)
  qed
qed

lemma unat_negative_delayTime: "sint (d :: 32 word) < 0 \<Longrightarrow> 2 ^ 31 \<le> unat d"
  using sint_ge [of d] by (simp add: unat_delayTime)

lemma upto_as_map: "[a..b] = map (\<lambda>i. a + int i) [0..<nat (b - a + 1)]"
  by (rule nth_equalityI) simp_all

lemma rev_upto_as_map: "rev [a..b] = map (\<lambda>i. b - int i) [0..<nat (b - a + 1)]"
  by (rule nth_equalityI) (simp_all add: rev_nth)

lemma hd_rev_upto: "a \<le> b \<Longrightarrow> hd (rev [a..b] @ xs) = b"
  by (simp add: upto_rec2)

lemma emitted_servo_backward:
  "emitted (servo_backward pos) s = concat (map (\<lambda>p. [Write p, Delay 1]) (rev [45..pos]))"
  by (rule emitted_eq) (rule calls_servo_backward)

lemma emitted_servo_forward: "emitted (servo_forward pos) s = map Write [pos..176]"
  by (rule emitted_eq) (rule calls_servo_forward)

lemma emitted_servo:
  "emitted (servo delayTime) s =
     concat (map (\<lambda>p. [Write p, Delay 1]) (rev [45..176])) @
       [Delay 300] @ map Write [45..176] @ [Delay delayTime]"
  by (rule emitted_eq) (rule calls_servo)

lemma commanded_sweep:
  "commanded (concat (map (\<lambda>p. [Write p, Delay 1]) ps) @
       [Delay 300] @ map Write qs @ [Delay d]) = ps @ qs"
  by (simp add: commanded_append commanded_steps commanded_writes)

lemma blocking_ms_sweep:
  "blocking_ms (concat (map (\<lambda>p. [Write p, Delay 1]) ps) @
       [Delay 300] @ map Write qs @ [Delay d]) = length ps + 300 + unat d"
  by (simp add: blocking_ms_append blocking_ms_steps blocking_ms_writes)

lemma config_calls_sweep:
  "config_calls (concat (map (\<lambda>p. [Write p, Delay 1]) ps) @
       [Delay 300] @ map Write qs @ [Delay d]) = []"
  by (simp add: config_calls_append config_calls_steps config_calls_writes)

lemma commanded_emitted_servo:
  "commanded (emitted (servo delayTime) s) = rev [45..176] @ [45..176]"
  by (simp only: emitted_servo commanded_sweep)

lemma blocking_ms_emitted_servo:
  "blocking_ms (emitted (servo delayTime) s) = 432 + unat delayTime"
proof -
  have "blocking_ms (emitted (servo delayTime) s) = length (rev [45..176]) + 300 + unat delayTime"
    by (simp only: emitted_servo blocking_ms_sweep)
  also have "length (rev [45..176]) = 132"
    by (simp only: length_rev upto_45_176_length)
  finally show ?thesis by simp
qed

lemma frame_servo:
  "periodHertz (servo delayTime s) = periodHertz s \<and>
   attachment (servo delayTime s) = attachment s"
  by (simp add: servo_def delay_def frame_servo_forward frame_servo_backward)

lemma position_servo: "position (servo delayTime s) = Some 176"
  by (simp add: servo_def delay_def position_servo_forward)

lemma servo_state:
  "servo delayTime s =
     s\<lparr>position := Some 176,
       calls := calls s @ concat (map (\<lambda>p. [Write p, Delay 1]) (rev [45..176])) @
         [Delay 300] @ map Write [45..176] @ [Delay delayTime]\<rparr>"
  by (rule hw.equality) (simp_all only: frame_servo position_servo calls_servo hw.simps
    hw.update_convs, simp_all add: servo_def delay_def)

section \<open>The claims\<close>

text \<open>
  Claim C1. Whatever the cycle delay, one call of \<open>servo\<close> commands the
  actuator, in its first loop, with exactly the descending angles 176, 175, ..., 45
  (132 values: the angle at index \<open>i\<close> is \<open>176 - i\<close>), and in its second
  loop with exactly the ascending angles 45, 46, ..., 176 (132 values: the angle at
  index \<open>i\<close> is \<open>45 + i\<close>). The angles commanded by the whole call are the
  first sequence followed by the second, and nothing else.
\<close>

theorem servo_commanded_sequence:
  "commanded (emitted (servo_backward 176) s) = rev [45..176] \<and>
   rev [45..176] = map (\<lambda>i. 176 - int i) [0..<132] \<and>
   commanded (emitted (servo_forward 45) s') = [45..176] \<and>
   [45..176] = map (\<lambda>i. 45 + int i) [0..<132] \<and>
   commanded (emitted (servo delayTime) s) = rev [45..176] @ [45..176]"
proof (intro conjI)
  show "commanded (emitted (servo_backward 176) s) = rev [45..176]"
    by (simp only: emitted_servo_backward commanded_steps)
  show "rev [45..176] = map (\<lambda>i. 176 - int i) [0..<132]"
    using rev_upto_as_map [of 45 176] by simp
  show "commanded (emitted (servo_forward 45) s') = [45..176]"
    by (simp only: emitted_servo_forward commanded_writes)
  show "[45..176] = map (\<lambda>i. 45 + int i) [0..<132]"
    using upto_as_map [of 45 176] by simp
  show "commanded (emitted (servo delayTime) s) = rev [45..176] @ [45..176]"
    by (rule commanded_emitted_servo)
qed

text \<open>
  Claim C2, as stated, fails for a negative cycle delay. For the argument \<open>-1\<close>
  the specification's sum \<open>131 + 300 + 0 + d\<close> is 430 ms, but the durations
  passed to \<^verbatim>\<open>delay\<close> add up to 4294967727 ms: the last call receives the
  bits of \<open>-1\<close> as the unsigned number 4294967295.
\<close>

theorem servo_blocking_negative_counterexample:
  "blocking_ms (emitted (servo (- 1)) (servoInit unconfigured)) = 4294967727 \<and>
   spec_blocking_ms (- 1) = 430"
proof -
  have "unat (- 1 :: 32 word) = 4294967295"
    by (simp add: unat_delayTime [of "- 1"])
  then show ?thesis
    by (simp add: blocking_ms_emitted_servo spec_blocking_ms_def)
qed

text \<open>
  Claim C2, amended. For every cycle delay, the durations passed to \<^verbatim>\<open>delay\<close>
  during one call of \<open>servo\<close> add up to exactly 132 ms (one millisecond after
  each of the 132 writes of the first loop) plus 300 ms plus nothing for the second
  loop plus the cycle delay read as an unsigned 32-bit number. That number is the
  argument itself when the argument is not negative, and the argument plus
  \<open>2 ^ 32\<close> when it is negative; the sum is the specification's
  \<open>131 + 300 + 0 + d\<close> plus 1 in the first case, and plus \<open>1 + 2 ^ 32\<close> in
  the second.
\<close>

theorem servo_blocking_ms:
  "blocking_ms (emitted (servo delayTime) s) = 132 + 300 + 0 + unat delayTime \<and>
   unat delayTime =
     (if 0 \<le> sint delayTime then nat (sint delayTime) else nat (sint delayTime + 2 ^ 32)) \<and>
   int (blocking_ms (emitted (servo delayTime) s)) =
     spec_blocking_ms delayTime + 1 + (if 0 \<le> sint delayTime then 0 else 2 ^ 32)"
proof (intro conjI)
  show "blocking_ms (emitted (servo delayTime) s) = 132 + 300 + 0 + unat delayTime"
    by (simp add: blocking_ms_emitted_servo)
  show "unat delayTime =
     (if 0 \<le> sint delayTime then nat (sint delayTime) else nat (sint delayTime + 2 ^ 32))"
    by (rule unat_delayTime)
  have lo: "- (2 ^ 31) \<le> sint delayTime" using sint_ge [of delayTime] by simp
  then show "int (blocking_ms (emitted (servo delayTime) s)) =
     spec_blocking_ms delayTime + 1 + (if 0 \<le> sint delayTime then 0 else 2 ^ 32)"
    by (simp add: blocking_ms_emitted_servo spec_blocking_ms_def unat_delayTime [of delayTime])
qed

text \<open>
  Claim C3. Whatever the cycle delay and the state before, a call of \<open>servo\<close>
  returns (both loops are total functions, by their termination proofs), and the
  state it returns is the state before with the whole call sequence appended, all
  398 calls of it: the backward traversal, the settle pause, the forward traversal
  and the trailing pause. The angles commanded are one traversal back and forth, and
  the last call made before returning is the pause of the caller's duration. No
  shorter sequence is possible.
\<close>

theorem servo_returns_after_one_traversal:
  "servo delayTime s =
     s\<lparr>position := Some 176,
       calls := calls s @ concat (map (\<lambda>p. [Write p, Delay 1]) (rev [45..176])) @
         [Delay 300] @ map Write [45..176] @ [Delay delayTime]\<rparr> \<and>
   commanded (emitted (servo delayTime) s) = rev [45..176] @ [45..176] \<and>
   last (calls (servo delayTime s)) = Delay delayTime \<and>
   length (emitted (servo delayTime) s) = 398"
proof (intro conjI)
  show "servo delayTime s =
     s\<lparr>position := Some 176,
       calls := calls s @ concat (map (\<lambda>p. [Write p, Delay 1]) (rev [45..176])) @
         [Delay 300] @ map Write [45..176] @ [Delay delayTime]\<rparr>"
    by (rule servo_state)
  show "commanded (emitted (servo delayTime) s) = rev [45..176] @ [45..176]"
    by (rule commanded_emitted_servo)
  show "last (calls (servo delayTime s)) = Delay delayTime"
    by (simp add: servo_def delay_def)
  have "length (concat (map (\<lambda>p. [Write p, Delay 1]) ps)) = 2 * length ps" for ps :: "int list"
    by (induction ps) simp_all
  then have "length (emitted (servo delayTime) s) = 2 * length [45..176] + 1 + length [45..176] + 1"
    by (simp only: emitted_servo length_append length_map length_rev list.size)
  then show "length (emitted (servo delayTime) s) = 398"
    by (simp only: upto_45_176_length)
qed

text \<open>
  Claim C4. \<open>servoInit\<close> sets the carrier frequency to 333 Hz and attaches the
  actuator to pin 33 with the pulse-width bounds 900 and 2100 microseconds, by
  exactly these two calls. A second \<open>servoInit\<close> makes the same two calls and
  leaves the configuration as it was after the first.
\<close>

theorem servoInit_configuration:
  "periodHertz (servoInit s) = Some 333 \<and>
   attachment (servoInit s) = Some (servoPin, 900, 2100) \<and> servoPin = 33 \<and>
   emitted servoInit s = [SetPeriodHertz 333, Attach 33 900 2100] \<and>
   emitted servoInit (servoInit s) = emitted servoInit s \<and>
   configuration (servoInit (servoInit s)) = configuration (servoInit s) \<and>
   position (servoInit (servoInit s)) = position (servoInit s)"
  by (simp add: servoInit_def servoPin_def myservo_attach_def myservo_setPeriodHertz_def
      emitted_def configuration_def)


text \<open>
  Claim C5. In one call of \<open>servo\<close>, each of the 132 writes of the backward
  loop is followed at once by a pause of 1 ms; then comes one pause of 300 ms; the
  writes of the forward loop follow one another with no pause between them (the
  forward loop passes no duration to \<^verbatim>\<open>delay\<close> at all); the pause of the
  caller's duration ends the call.
\<close>

theorem servo_delay_pattern:
  "emitted (servo_backward 176) s = concat (map (\<lambda>p. [Write p, Delay 1]) (rev [45..176])) \<and>
   length (rev [45..176]) = 132 \<and> unat (1 :: 32 word) = 1 \<and>
   emitted (delay 300) s' = [Delay 300] \<and> unat (300 :: 32 word) = 300 \<and>
   emitted (servo_forward 45) s'' = map Write [45..176] \<and>
   blocking_ms (map Write [45..176]) = 0 \<and>
   emitted (servo delayTime) s =
     concat (map (\<lambda>p. [Write p, Delay 1]) (rev [45..176])) @
       [Delay 300] @ map Write [45..176] @ [Delay delayTime]"
proof (intro conjI)
  show "emitted (servo_backward 176) s =
      concat (map (\<lambda>p. [Write p, Delay 1]) (rev [45..176]))"
    by (rule emitted_servo_backward)
  show "length (rev [45..176]) = 132"
    by (simp only: length_rev upto_45_176_length)
  show "unat (1 :: 32 word) = 1" by simp
  show "emitted (delay 300) s' = [Delay 300]"
    by (simp add: emitted_def delay_def)
  show "unat (300 :: 32 word) = 300" by simp
  show "emitted (servo_forward 45) s'' = map Write [45..176]"
    by (rule emitted_servo_forward)
  show "blocking_ms (map Write [45..176]) = 0"
    by (rule blocking_ms_writes)
  show "emitted (servo delayTime) s =
     concat (map (\<lambda>p. [Write p, Delay 1]) (rev [45..176])) @
       [Delay 300] @ map Write [45..176] @ [Delay delayTime]"
    by (rule emitted_servo)
qed

text \<open>
  Claim C6. Whatever the cycle delay, every angle commanded during a call of
  \<open>servo\<close> lies between 45 and 176, both included; neither 0 nor 180 is ever
  commanded.
\<close>

theorem servo_angles_in_range:
  "set (commanded (emitted (servo delayTime) s)) \<subseteq> {45..176} \<and>
   0 \<notin> set (commanded (emitted (servo delayTime) s)) \<and>
   180 \<notin> set (commanded (emitted (servo delayTime) s))"
proof -
  have "set (commanded (emitted (servo delayTime) s)) = {45..176}"
    by (simp only: commanded_emitted_servo set_append set_rev set_upto Un_absorb)
  then show ?thesis by simp
qed

text \<open>
  Claim C7. With a cycle delay of 0, \<open>servo\<close> still makes both traversals and
  the settle pause of 300 ms in full. The trailing pause has duration 0: the total
  blocking time of the call, 432 ms, is that of the backward loop and the settle
  pause alone.
\<close>

theorem servo_zero_delay:
  "emitted (servo 0) s =
     concat (map (\<lambda>p. [Write p, Delay 1]) (rev [45..176])) @
       [Delay 300] @ map Write [45..176] @ [Delay 0] \<and>
   commanded (emitted (servo 0) s) = rev [45..176] @ [45..176] \<and>
   blocking_ms [Delay 0] = 0 \<and>
   blocking_ms (emitted (servo 0) s) =
     blocking_ms (emitted (servo_backward 176) s) + blocking_ms [Delay 300] \<and>
   blocking_ms (emitted (servo 0) s) = 432"
proof (intro conjI)
  show "emitted (servo 0) s =
     concat (map (\<lambda>p. [Write p, Delay 1]) (rev [45..176])) @
       [Delay 300] @ map Write [45..176] @ [Delay 0]"
    by (rule emitted_servo)
  show "commanded (emitted (servo 0) s) = rev [45..176] @ [45..176]"
    by (rule commanded_emitted_servo)
  show "blocking_ms [Delay 0] = 0" by simp
  show "blocking_ms (emitted (servo 0) s) = 432"
    by (simp add: blocking_ms_emitted_servo)
  have "blocking_ms (emitted (servo_backward 176) s) = length (rev [45..176])"
    by (simp only: emitted_servo_backward blocking_ms_steps) simp
  then have "blocking_ms (emitted (servo_backward 176) s) = 132"
    by (simp only: length_rev upto_45_176_length)
  then show "blocking_ms (emitted (servo 0) s) =
     blocking_ms (emitted (servo_backward 176) s) + blocking_ms [Delay 300]"
    by (simp add: blocking_ms_emitted_servo)
qed

text \<open>Two calls in a row.\<close>

lemma calls_servo_servo:
  "calls (servo d2 (servo d1 s)) =
     calls s @
     (concat (map (\<lambda>p. [Write p, Delay 1]) (rev [45..176])) @
        [Delay 300] @ map Write [45..176] @ [Delay d1]) @
     (concat (map (\<lambda>p. [Write p, Delay 1]) (rev [45..176])) @
        [Delay 300] @ map Write [45..176] @ [Delay d2])"
  by (simp only: calls_servo [of d2 "servo d1 s"] calls_servo [of d1 s] append_assoc)

text \<open>
  Claim C8. For any two cycle delays and any state before, \<open>servo\<close> called
  twice in a row commands two full traversals back and forth, one after the other.
  Each begins at 176, which is also the position the first call leaves. The calls
  made by one invocation, and so the angles it commands, are the same from every
  state and for every cycle delay.
\<close>

theorem servo_twice:
  "commanded (emitted (servo d2 \<circ> servo d1) s) =
     (rev [45..176] @ [45..176]) @ (rev [45..176] @ [45..176]) \<and>
   hd (rev [45..176] @ [45..176]) = 176 \<and>
   position (servo d1 s) = Some 176 \<and>
   emitted (servo d2) (servo d1 s) = emitted (servo d2) s' \<and>
   commanded (emitted (servo d1) s) = commanded (emitted (servo d2) s')"
proof (intro conjI)
  have "emitted (servo d2 \<circ> servo d1) s =
     (concat (map (\<lambda>p. [Write p, Delay 1]) (rev [45..176])) @
        [Delay 300] @ map Write [45..176] @ [Delay d1]) @
     (concat (map (\<lambda>p. [Write p, Delay 1]) (rev [45..176])) @
        [Delay 300] @ map Write [45..176] @ [Delay d2])"
    by (rule emitted_eq) (simp only: comp_apply calls_servo_servo)
  then show "commanded (emitted (servo d2 \<circ> servo d1) s) =
     (rev [45..176] @ [45..176]) @ (rev [45..176] @ [45..176])"
    by (simp only: commanded_append [of "_ @ _ @ _ @ [Delay d1]"] commanded_sweep)
  show "hd (rev [45..176] @ [45..176]) = 176"
    by (rule hd_rev_upto) simp
  show "position (servo d1 s) = Some 176"
    by (rule position_servo)
  show "emitted (servo d2) (servo d1 s) = emitted (servo d2) s'"
    by (simp only: emitted_servo)
  show "commanded (emitted (servo d1) s) = commanded (emitted (servo d2) s')"
    by (simp only: commanded_emitted_servo)
qed

text \<open>
  Claim C9. The cycle delay is a signed 32-bit integer. The last call of
  \<open>servo\<close> passes its bits on to \<^verbatim>\<open>delay\<close>, where they are read as an
  unsigned duration: the argument modulo \<open>2 ^ 32\<close>. For a negative argument
  that is the argument plus \<open>2 ^ 32\<close>, at least \<open>2 ^ 31\<close> milliseconds, and
  not zero; for any other argument it is the argument itself.
\<close>

theorem servo_negative_delayTime:
  "last (calls (servo delayTime s)) = Delay delayTime \<and>
   - (2 ^ 31) \<le> sint delayTime \<and> sint delayTime < 2 ^ 31 \<and>
   blocking_ms [Delay delayTime] = nat (sint delayTime mod 2 ^ 32) \<and>
   (if sint delayTime < 0
    then blocking_ms [Delay delayTime] = nat (sint delayTime + 2 ^ 32) \<and>
         2 ^ 31 \<le> blocking_ms [Delay delayTime]
    else blocking_ms [Delay delayTime] = nat (sint delayTime))"
proof (intro conjI)
  show "last (calls (servo delayTime s)) = Delay delayTime"
    by (simp add: servo_def delay_def)
  show "- (2 ^ 31) \<le> sint delayTime" using sint_ge [of delayTime] by simp
  show "sint delayTime < 2 ^ 31" using sint_lt [of delayTime] by simp
  show "blocking_ms [Delay delayTime] = nat (sint delayTime mod 2 ^ 32)"
    using unat_delayTime_mod [of delayTime] by simp
  show "if sint delayTime < 0
    then blocking_ms [Delay delayTime] = nat (sint delayTime + 2 ^ 32) \<and>
         2 ^ 31 \<le> blocking_ms [Delay delayTime]
    else blocking_ms [Delay delayTime] = nat (sint delayTime)"
    using unat_delayTime [of delayTime] unat_negative_delayTime [of delayTime]
    by (simp split: if_splits)
qed

text \<open>
  Claim C10. \<open>servo\<close> leaves the configuration alone: whatever the cycle delay,
  the carrier frequency and the pin attachment with its pulse-width bounds are the
  same after the call as before (after \<open>servoInit\<close>: 333 Hz, pin 33, 900 and
  2100 microseconds), and none of the calls it makes is a configuration call: it
  only writes positions and pauses.
\<close>

theorem servo_preserves_configuration:
  "configuration (servo delayTime s) = configuration s \<and>
   periodHertz (servo delayTime s) = periodHertz s \<and>
   attachment (servo delayTime s) = attachment s \<and>
   config_calls (emitted (servo delayTime) s) = [] \<and>
   configuration (servo delayTime (servoInit s)) = (Some 333, Some (33, 900, 2100))"
proof (intro conjI)
  show "configuration (servo delayTime s) = configuration s"
    by (simp add: configuration_def frame_servo)
  show "periodHertz (servo delayTime s) = periodHertz s"
    by (simp add: frame_servo)
  show "attachment (servo delayTime s) = attachment s"
    by (simp add: frame_servo)
  show "config_calls (emitted (servo delayTime) s) = []"
    by (simp only: emitted_servo config_calls_sweep)
  show "configuration (servo delayTime (servoInit s)) = (Some 333, Some (33, 900, 2100))"
    by (simp add: configuration_def frame_servo servoInit_def servoPin_def
        myservo_attach_def myservo_setPeriodHertz_def)
qed

end
